theory Spec2Isabelle
  imports Complex_Main
begin

section \<open>Conventions of the embedding\<close>

text \<open>
  The drivers of printipi verified here are \<^verbatim>\<open>drivers/a4988.h\<close> (class A4988),
  \<^verbatim>\<open>drivers/rcthermistor.h\<close> (class RCThermistor) and
  \<^verbatim>\<open>drivers/lineardeltacoordmap.h\<close> (class LinearDeltaCoordMap).

  \<^item> C++ \<^verbatim>\<open>float\<close> values are read as real numbers: \<open>+\<close>, \<open>*\<close>, \<open>sqrt\<close> and \<open>log\<close> are
    the exact operations, so rounding, overflow and NaN are outside the model. A division
    is the one float operation whose failure the model keeps, where a statement is about
    it (\<open>fdiv\<close> below).
  \<^item> Where a statement depends on rounding (whether bound is idempotent), the function has
    a second model in which every operation rounds as binary32 does (\<open>bound_f32\<close>).
  \<^item> A member function that mutates its object takes the object and returns the new one.
  \<^item> What a member function reads from the outside (the clock, the level on the wire of
    a pin) is an argument of its model.
\<close>

section \<open>Pins, events and time\<close>

datatype IoLevel = IoLow | IoHigh

datatype StepDirection = StepBackward | StepForward

text \<open>
  Time points of EventClockT are counted in microseconds; \<open>microseconds n\<close> is the duration
  \<^verbatim>\<open>std::chrono::microseconds(n)\<close> in that unit.
\<close>

type_synonym time_point = int

definition microseconds :: "int \<Rightarrow> int" where
  "microseconds n = n"

text \<open>
  Modelled from the spec: the pin capability of \<^verbatim>\<open>drivers/iopin.h\<close>, which is not among
  the sources. The spec gives it the operations makeDigitalInput, makeDigitalOutput(initial
  level), digitalRead, digitalWrite and a stable identifier. The model is a recording pin:
  it keeps its mode, the level of its output latch and the list of the operations called
  on it, oldest first.
\<close>

datatype PinMode = PinUnconfigured | PinInput | PinOutput

datatype PinOp = OpMakeDigitalInput | OpMakeDigitalOutput IoLevel
  | OpDigitalWrite IoLevel | OpDigitalRead

record IoPin =
  pin_id :: int
  pin_mode :: PinMode
  pin_level :: IoLevel
  pin_log :: "PinOp list"

definition makeDigitalInput :: "IoPin \<Rightarrow> IoPin" where
  "makeDigitalInput p = p\<lparr>pin_mode := PinInput, pin_log := pin_log p @ [OpMakeDigitalInput]\<rparr>"

definition makeDigitalOutput :: "IoLevel \<Rightarrow> IoPin \<Rightarrow> IoPin" where
  "makeDigitalOutput lev p =
     p\<lparr>pin_mode := PinOutput, pin_level := lev,
       pin_log := pin_log p @ [OpMakeDigitalOutput lev]\<rparr>"

definition digitalWrite :: "IoLevel \<Rightarrow> IoPin \<Rightarrow> IoPin" where
  "digitalWrite lev p = p\<lparr>pin_level := lev, pin_log := pin_log p @ [OpDigitalWrite lev]\<rparr>"

text \<open>Reading returns the level \<open>wire\<close> that the outside presents at this call.\<close>

definition digitalRead :: "IoLevel \<Rightarrow> IoPin \<Rightarrow> IoLevel \<times> IoPin" where
  "digitalRead wire p = (wire, p\<lparr>pin_log := pin_log p @ [OpDigitalRead]\<rparr>)"

text \<open>
  Modelled from the spec: Event (\<^verbatim>\<open>event.h\<close>) and OutputEvent (\<^verbatim>\<open>outputevent.h\<close>) are
  not among the sources; their fields are those of the spec's LogicalEvent and OutputEvent.
\<close>

record Event =
  evt_time :: time_point
  evt_stepperId :: nat
  evt_direction :: StepDirection

record OutputEvent =
  oe_time :: time_point
  oe_pinId :: int
  oe_level :: IoLevel

definition mkOutputEvent :: "time_point \<Rightarrow> int \<Rightarrow> IoLevel \<Rightarrow> OutputEvent" where
  "mkOutputEvent t pid lev = \<lparr>oe_time = t, oe_pinId = pid, oe_level = lev\<rparr>"

section \<open>The A4988 stepper driver\<close>

record A4988 =
  enablePin :: IoPin
  stepPin :: IoPin
  dirPin :: IoPin

text \<open>The constructor, from the three pins as they are before it runs.\<close>

definition A4988_ctor :: "IoPin \<Rightarrow> IoPin \<Rightarrow> IoPin \<Rightarrow> A4988" where
  "A4988_ctor en st dr =
     \<lparr>enablePin = makeDigitalOutput IoHigh en,
      stepPin = makeDigitalOutput IoLow st,
      dirPin = makeDigitalOutput IoLow dr\<rparr>"

definition lockAxis :: "A4988 \<Rightarrow> A4988" where
  "lockAxis d = d\<lparr>enablePin := digitalWrite IoHigh (enablePin d)\<rparr>"

definition unlockAxis :: "A4988 \<Rightarrow> A4988" where
  "unlockAxis d = d\<lparr>enablePin := digitalWrite IoLow (enablePin d)\<rparr>"

definition getEventOutputSequence :: "A4988 \<Rightarrow> Event \<Rightarrow> OutputEvent list" where
  "getEventOutputSequence d evt =
     [mkOutputEvent (evt_time evt) (pin_id (dirPin d))
        (if evt_direction evt = StepForward then IoHigh else IoLow),
      mkOutputEvent (evt_time evt) (pin_id (stepPin d)) IoLow,
      mkOutputEvent (evt_time evt + microseconds 8) (pin_id (stepPin d)) IoHigh]"

section \<open>The RC thermistor: read cycle\<close>

text \<open>
  The template parameters of RCThermistor (all \<^verbatim>\<open>unsigned\<close>) and the constants derived
  from them. \<open>Cap\<close> is the source's \<^verbatim>\<open>C\<close>, the capacitance in farad. The defaults of the
  template are \<^verbatim>\<open>MIN_R = 0\<close> and \<^verbatim>\<open>MAX_R = R0_OHMS * 2\<close>.
\<close>

record RCThermistorCfg =
  R_OHMS :: nat
  C_PICO :: nat
  VCC_mV :: nat
  V_TOGGLE_mV :: nat
  T0_C :: nat
  R0_OHMS :: nat
  BETA :: nat
  MIN_R :: nat
  MAX_R :: nat

definition Cap :: "RCThermistorCfg \<Rightarrow> real" where
  "Cap cfg = real (C_PICO cfg) * (1 / 10 ^ 12)"

definition Vcc :: "RCThermistorCfg \<Rightarrow> real" where
  "Vcc cfg = real (VCC_mV cfg) / 1000"

definition Va :: "RCThermistorCfg \<Rightarrow> real" where
  "Va cfg = real (V_TOGGLE_mV cfg) / 1000"

definition Ra :: "RCThermistorCfg \<Rightarrow> real" where
  "Ra cfg = real (R_OHMS cfg)"

record RCThermistor =
  pin :: IoPin
  startReadTime :: time_point
  endReadTime :: time_point

text \<open>\<open>now\<close> is what \<^verbatim>\<open>EventClockT::now()\<close> returns in the call.\<close>

definition startRead :: "time_point \<Rightarrow> RCThermistor \<Rightarrow> RCThermistor" where
  "startRead now th = th\<lparr>pin := makeDigitalInput (pin th), startReadTime := now\<rparr>"

definition isReady :: "time_point \<Rightarrow> IoLevel \<Rightarrow> RCThermistor \<Rightarrow> bool \<times> RCThermistor" where
  "isReady now wire th =
     (case digitalRead wire (pin th) of (lev, p) \<Rightarrow>
        if lev = IoHigh then (False, th\<lparr>pin := p\<rparr>)
        else (True, th\<lparr>pin := makeDigitalOutput IoHigh p, endReadTime := now\<rparr>))"

definition timeSinceStartRead :: "time_point \<Rightarrow> RCThermistor \<Rightarrow> int" where
  "timeSinceStartRead now th = now - startReadTime th"

section \<open>The RC thermistor: resistance from the discharge time\<close>

text \<open>The time the source computes for a candidate resistance \<open>Rt\<close> (its \<^verbatim>\<open>calcT\<close>).\<close>

definition calcT :: "RCThermistorCfg \<Rightarrow> real \<Rightarrow> real" where
  "calcT cfg Rt = Cap cfg * Rt * ln (Rt * Vcc cfg / ((Ra cfg + Rt) * Va cfg))"

text \<open>
  Each iteration halves the bracket, and the loop runs only while the bracket is wider than
  2: the width, rounded up, decreases. This is the termination argument of the loop.
\<close>

lemma halve_ceiling:
  fixes w :: real
  assumes "2 < w"
  shows "nat \<lceil>w / 2\<rceil> < nat \<lceil>w\<rceil>"
proof -
  define c where "c = \<lceil>w\<rceil>"
  have "w \<le> real_of_int c"
    unfolding c_def by (rule le_of_int_ceiling)
  with assms have "w / 2 \<le> real_of_int c - 1" and "0 < real_of_int c"
    by linarith+
  then have "w / 2 \<le> real_of_int (c - 1)" and "0 < c"
    by simp_all
  then have "\<lceil>w / 2\<rceil> \<le> c - 1" and "0 < c"
    by (simp_all only: ceiling_le_iff)
  then show ?thesis unfolding c_def by linarith
qed

lemma upper_half_smaller:
  fixes upper lower :: real
  assumes "2 < upper - lower"
  shows "nat \<lceil>upper - 0.5 * (upper + lower)\<rceil> < nat \<lceil>upper - lower\<rceil>"
proof -
  have eq: "upper - 0.5 * (upper + lower) = (upper - lower) / 2"
    by (simp add: field_simps)
  show ?thesis unfolding eq by (rule halve_ceiling [OF assms])
qed

lemma lower_half_smaller:
  fixes upper lower :: real
  assumes "2 < upper - lower"
  shows "nat \<lceil>0.5 * (upper + lower) - lower\<rceil> < nat \<lceil>upper - lower\<rceil>"
proof -
  have eq: "0.5 * (upper + lower) - lower = (upper - lower) / 2"
    by (simp add: field_simps)
  show ?thesis unfolding eq by (rule halve_ceiling [OF assms])
qed

text \<open>The loop of guessRFromTime, from the bracket \<open>(lower, upper)\<close> on.\<close>

function guessR_loop :: "RCThermistorCfg \<Rightarrow> real \<Rightarrow> real \<Rightarrow> real \<Rightarrow> real" where
  "guessR_loop cfg time lower upper =
     (if upper - lower > 2
      then (if calcT cfg (0.5 * (upper + lower)) < time
            then guessR_loop cfg time (0.5 * (upper + lower)) upper
            else guessR_loop cfg time lower (0.5 * (upper + lower)))
      else 0.5 * (lower + upper))"
  by pat_completeness auto
termination
proof (relation "measure (\<lambda>(cfg, time, lower, upper). nat \<lceil>upper - lower\<rceil>)")
  fix cfg :: RCThermistorCfg and time lower upper :: real
  assume "2 < upper - lower"
  then show "((cfg, time, 0.5 * (upper + lower), upper), (cfg, time, lower, upper))
      \<in> measure (\<lambda>(cfg, time, lower, upper). nat \<lceil>upper - lower\<rceil>)"
    using upper_half_smaller [of upper lower] by (simp only: in_measure prod.case)
next
  fix cfg :: RCThermistorCfg and time lower upper :: real
  assume "2 < upper - lower"
  then show "((cfg, time, lower, 0.5 * (upper + lower)), (cfg, time, lower, upper))
      \<in> measure (\<lambda>(cfg, time, lower, upper). nat \<lceil>upper - lower\<rceil>)"
    using lower_half_smaller [of upper lower] by (simp only: in_measure prod.case)
qed simp

declare guessR_loop.simps [simp del]

definition guessRFromTime :: "RCThermistorCfg \<Rightarrow> real \<Rightarrow> real" where
  "guessRFromTime cfg time = guessR_loop cfg time (real (MIN_R cfg)) (real (MAX_R cfg))"

text \<open>
  The same loop, instrumented: the brackets \<open>(lower, upper)\<close> at each evaluation of the loop
  condition, in order. The last one is the bracket the loop leaves with.
\<close>

function guessR_brackets :: "RCThermistorCfg \<Rightarrow> real \<Rightarrow> real \<Rightarrow> real \<Rightarrow> (real \<times> real) list"
  where
  "guessR_brackets cfg time lower upper =
     (lower, upper) #
     (if upper - lower > 2
      then (if calcT cfg (0.5 * (upper + lower)) < time
            then guessR_brackets cfg time (0.5 * (upper + lower)) upper
            else guessR_brackets cfg time lower (0.5 * (upper + lower)))
      else [])"
  by pat_completeness auto
termination
proof (relation "measure (\<lambda>(cfg, time, lower, upper). nat \<lceil>upper - lower\<rceil>)")
  fix cfg :: RCThermistorCfg and time lower upper :: real
  assume "2 < upper - lower"
  then show "((cfg, time, 0.5 * (upper + lower), upper), (cfg, time, lower, upper))
      \<in> measure (\<lambda>(cfg, time, lower, upper). nat \<lceil>upper - lower\<rceil>)"
    using upper_half_smaller [of upper lower] by (simp only: in_measure prod.case)
next
  fix cfg :: RCThermistorCfg and time lower upper :: real
  assume "2 < upper - lower"
  then show "((cfg, time, lower, 0.5 * (upper + lower)), (cfg, time, lower, upper))
      \<in> measure (\<lambda>(cfg, time, lower, upper). nat \<lceil>upper - lower\<rceil>)"
    using lower_half_smaller [of upper lower] by (simp only: in_measure prod.case)
qed simp

declare guessR_brackets.simps [simp del]

definition width :: "real \<times> real \<Rightarrow> real" where
  "width b = snd b - fst b"

definition midpoint_of :: "real \<times> real \<Rightarrow> real" where
  "midpoint_of b = 0.5 * (fst b + snd b)"

section \<open>The linear delta coordinate map\<close>

text \<open>
  The members \<^verbatim>\<open>_r\<close>, \<^verbatim>\<open>_L\<close>, \<^verbatim>\<open>_h\<close>, \<^verbatim>\<open>_buildrad\<close>, \<^verbatim>\<open>_STEPS_MM\<close>, ... are the fields
  \<open>m_r\<close>, \<open>m_L\<close>, ...; all lengths are in millimetres. The bed level transform (Matrix3x3,
  not among the sources) is a function on \<open>(x, y, z)\<close>.
\<close>

record LinearDeltaCoordMap =
  m_r :: real
  m_L :: real
  m_h :: real
  m_buildrad :: real
  m_STEPS_MM :: real
  m_MM_STEPS :: real
  m_STEPS_MM_EXT :: real
  m_MM_STEPS_EXT :: real
  bedLevel :: "real \<times> real \<times> real \<Rightarrow> real \<times> real \<times> real"

definition LinearDeltaCoordMap_ctor ::
  "real \<Rightarrow> real \<Rightarrow> real \<Rightarrow> real \<Rightarrow> real \<Rightarrow> real \<Rightarrow> (real \<times> real \<times> real \<Rightarrow> real \<times> real \<times> real)
   \<Rightarrow> LinearDeltaCoordMap" where
  "LinearDeltaCoordMap_ctor r L h buildrad STEPS_MM STEPS_MM_EXT t =
     \<lparr>m_r = r, m_L = L, m_h = h, m_buildrad = buildrad,
      m_STEPS_MM = STEPS_MM, m_MM_STEPS = 1 / STEPS_MM,
      m_STEPS_MM_EXT = STEPS_MM_EXT, m_MM_STEPS_EXT = 1 / STEPS_MM_EXT,
      bedLevel = t\<rparr>"

definition MIN_Z :: real where
  "MIN_Z = - 2"

definition applyLeveling :: "LinearDeltaCoordMap \<Rightarrow> real \<times> real \<times> real \<Rightarrow> real \<times> real \<times> real"
  where
  "applyLeveling cm xyz = bedLevel cm xyz"

definition bound ::
  "LinearDeltaCoordMap \<Rightarrow> real \<times> real \<times> real \<times> real \<Rightarrow> real \<times> real \<times> real \<times> real" where
  "bound cm xyze =
     (case xyze of (x0, y0, z0, e0) \<Rightarrow>
        let z = max MIN_Z
                  (min ((m_h cm + sqrt (m_L cm * m_L cm - m_r cm * m_r cm)) * m_STEPS_MM cm) z0)
        in if x0 * x0 + y0 * y0 > m_buildrad cm * m_buildrad cm
           then let ratio = sqrt (m_buildrad cm * m_buildrad cm / (x0 * x0 + y0 * y0))
                in (x0 * ratio, y0 * ratio, z, e0)
           else (x0, y0, z, e0))"

text \<open>
  A float division whose divisor is zero gives no finite number; \<open>fdiv\<close> returns \<open>None\<close>
  there, and xyzeFromMechanical returns \<open>None\<close> as soon as one of its divisions does.
\<close>

definition fdiv :: "real \<Rightarrow> real \<Rightarrow> real option" where
  "fdiv a b = (if b = 0 then None else Some (a / b))"

text \<open>The local variables of the branch \<^verbatim>\<open>B == C\<close>, as functions of what they read.\<close>

definition ydiv :: "real \<Rightarrow> real \<Rightarrow> real \<Rightarrow> real" where
  "ydiv A B r = 2 * (4 * A * A - 8 * A * B + 4 * B * B + 9 * r * r)"

definition ya :: "real \<Rightarrow> real \<Rightarrow> real \<Rightarrow> real" where
  "ya A B r = 2 * (A - B) * (A - B) * r"

definition yb :: "real \<Rightarrow> real \<Rightarrow> real \<Rightarrow> real \<Rightarrow> real" where
  "yb A B r L =
     4 * sqrt ((A - B) * (A - B) *
       (- (A - B) * (A - B) * (A - B) * (A - B) + 4 * (A - B) * (A - B) * L * L
        + 3 * (- 2 * (A - B) * (A - B) + 3 * L * L) * r * r - 9 * r * r * r * r))"

text \<open>The local variables of the last branch.\<close>

definition za :: "real \<Rightarrow> real \<Rightarrow> real \<Rightarrow> real \<Rightarrow> real" where
  "za A B C r =
     (B - C) * r * (2 * A * A * A - A * A * (B + C) - A * (B * B + C * C - 3 * r * r)
       + (B + C) * (2 * B * B - 3 * B * C + 2 * C * C + 3 * r * r))"

definition zb :: "real \<Rightarrow> real \<Rightarrow> real \<Rightarrow> real \<Rightarrow> real \<Rightarrow> real" where
  "zb A B C r L =
     sqrt 3 * sqrt (- ((B - C) * (B - C) * r * r *
       ((A - B) * (A - B) * (A - C) * (A - C) * (B - C) * (B - C)
        + 3 * (A * A + B * B - B * C + C * C - A * (B + C))
            * (A * A + B * B - B * C + C * C - A * (B + C) - 4 * L * L) * r * r
        + 9 * (2 * (A * A + B * B - B * C + C * C - A * (B + C)) - 3 * L * L) * r * r * r * r
        + 27 * r * r * r * r * r * r)))"

definition zdiv :: "real \<Rightarrow> real \<Rightarrow> real \<Rightarrow> real \<Rightarrow> real" where
  "zdiv A B C r =
     (B - C) * r * (4 * (A * A + B * B - B * C + C * C - A * (B + C)) + 9 * r * r)"

text \<open>
  \<open>mech\<close> is the array of the four step counts, axes A, B, C and E. \<open>mechA\<close>, \<open>mechB\<close> and
  \<open>mechC\<close> are the tower positions in millimetres (the locals \<^verbatim>\<open>A\<close>, \<^verbatim>\<open>B\<close>, \<^verbatim>\<open>C\<close>).
\<close>

type_synonym mech_position = "int \<times> int \<times> int \<times> int"

definition mechA :: "LinearDeltaCoordMap \<Rightarrow> mech_position \<Rightarrow> real" where
  "mechA cm mech = (case mech of (a, b, c, e) \<Rightarrow> real_of_int a * m_MM_STEPS cm)"

definition mechB :: "LinearDeltaCoordMap \<Rightarrow> mech_position \<Rightarrow> real" where
  "mechB cm mech = (case mech of (a, b, c, e) \<Rightarrow> real_of_int b * m_MM_STEPS cm)"

definition mechC :: "LinearDeltaCoordMap \<Rightarrow> mech_position \<Rightarrow> real" where
  "mechC cm mech = (case mech of (a, b, c, e) \<Rightarrow> real_of_int c * m_MM_STEPS cm)"

definition mechE :: "LinearDeltaCoordMap \<Rightarrow> mech_position \<Rightarrow> real" where
  "mechE cm mech = (case mech of (a, b, c, e) \<Rightarrow> real_of_int e * m_MM_STEPS_EXT cm)"

definition xyzeFromMechanical ::
  "LinearDeltaCoordMap \<Rightarrow> mech_position \<Rightarrow> (real \<times> real \<times> real \<times> real) option" where
  "xyzeFromMechanical cm mech =
     (let e = mechE cm mech;
          A = mechA cm mech; B = mechB cm mech; C = mechC cm mech;
          r = m_r cm; L = m_L cm
      in if A = B \<and> B = C then
           Some (0, 0, A - sqrt (L * L - r * r), e)
         else if B = C then
           (case fdiv (yb A B r L) ((A - B) * ydiv A B r) of None \<Rightarrow> None
            | Some q1 \<Rightarrow>
           (case fdiv (ya A B r) (ydiv A B r) of None \<Rightarrow> None
            | Some com2 \<Rightarrow>
           (case fdiv com2 (A - B) of None \<Rightarrow> None
            | Some q3 \<Rightarrow>
              let com1 = \<bar>q1\<bar>;
                  z = 0.5 * (A + B - 3 * r * (q3 + com1));
                  y = com2 + (A - B) * com1
              in Some (0, y, z, e))))
         else
           (case fdiv (za A B C r) (zdiv A B C r) of None \<Rightarrow> None
            | Some q1 \<Rightarrow>
           (case fdiv (zb A B C r L) (zdiv A B C r) of None \<Rightarrow> None
            | Some q2 \<Rightarrow>
              let z = q1 - \<bar>q2\<bar> in
           (case fdiv ((B - C) * (B + C - 2 * z)) (2 * sqrt 3 * r) of None \<Rightarrow> None
            | Some x \<Rightarrow>
           (case fdiv (- 2 * A * A + B * B + C * C + 4 * A * z - 2 * B * z - 2 * C * z) (6 * r)
              of None \<Rightarrow> None
            | Some q4 \<Rightarrow> Some (x, - q4, z, e))))))"

section \<open>The linear delta coordinate map: bound in float arithmetic\<close>

text \<open>
  A second model of \<^verbatim>\<open>bound\<close>, for the statements that depend on rounding. A float is the
  real number it stands for, and every arithmetic operation of the source is the exact
  operation followed by rounding to the nearest number with a significand of p bits, ties
  to the even significand (IEEE 754 round to nearest even): p = 24 for \<^verbatim>\<open>float\<close>, p = 53
  for \<^verbatim>\<open>double\<close>. The exponent is not bounded, so overflow, subnormal numbers and NaN are
  outside the model; no operation is fused with another.
\<close>

definition round_half_even :: "real \<Rightarrow> int" where
  "round_half_even y =
     (let f = \<lfloor>y\<rfloor>
      in if y - real_of_int f < 1 / 2 then f
         else if y - real_of_int f > 1 / 2 then f + 1
         else if even f then f else f + 1)"

definition round_to :: "nat \<Rightarrow> real \<Rightarrow> real" where
  "round_to p x =
     (if x = 0 then 0
      else let u = 2 powr real_of_int (\<lfloor>log 2 \<bar>x\<bar>\<rfloor> - (int p - 1))
           in real_of_int (round_half_even (x / u)) * u)"



definition f32_mul :: "real \<Rightarrow> real \<Rightarrow> real" where
  "f32_mul a b = round_to 24 (a * b)"









section \<open>Example objects\<close>

text \<open>Concrete pins, a driver, a thermistor and two geometries, for the instances below.\<close>

definition example_pin :: "int \<Rightarrow> IoPin" where
  "example_pin i = \<lparr>pin_id = i, pin_mode = PinUnconfigured, pin_level = IoLow, pin_log = []\<rparr>"

definition example_driver :: A4988 where
  "example_driver = A4988_ctor (example_pin 1) (example_pin 2) (example_pin 3)"

definition example_thermistor :: RCThermistor where
  "example_thermistor = \<lparr>pin = example_pin 4, startReadTime = 0, endReadTime = 0\<rparr>"

text \<open>
  The circuit of the spec's round trip (R_OHMS = 500, C_PICO = 100000, VCC_mV = 3300,
  V_TOGGLE_mV = 1650) with a 100 kOhm thermistor and the template's defaults for MIN_R and
  MAX_R; and the same circuit with MIN_R = 500.
\<close>

definition example_cfg :: RCThermistorCfg where
  "example_cfg = \<lparr>R_OHMS = 500, C_PICO = 100000, VCC_mV = 3300, V_TOGGLE_mV = 1650,
     T0_C = 25, R0_OHMS = 100000, BETA = 3950, MIN_R = 0, MAX_R = 100000 * 2\<rparr>"


text \<open>r = 3, L = 5, h = 10, build radius 85, 100 steps per mm (50 for the extruder).\<close>

definition example_geometry :: LinearDeltaCoordMap where
  "example_geometry = LinearDeltaCoordMap_ctor 3 5 10 85 100 50 (\<lambda>xyz. xyz)"

text \<open>r = 0: the three towers stand on the central axis.\<close>

definition flat_geometry :: LinearDeltaCoordMap where
  "flat_geometry = LinearDeltaCoordMap_ctor 0 1 10 85 1 1 (\<lambda>xyz. xyz)"

section \<open>The A4988 stepper driver: properties\<close>

text \<open>
  C1. For every event with time T, getEventOutputSequence returns exactly three output
  events, in this order: (T, direction pin, High when the direction is forward and Low when
  it is backward), (T, step pin, Low), (T + 8 microseconds, step pin, High).
\<close>

theorem getEventOutputSequence_contract:
  "length (getEventOutputSequence d evt) = 3 \<and>
   (evt_direction evt = StepForward \<longrightarrow>
      getEventOutputSequence d evt =
        [\<lparr>oe_time = evt_time evt, oe_pinId = pin_id (dirPin d), oe_level = IoHigh\<rparr>,
         \<lparr>oe_time = evt_time evt, oe_pinId = pin_id (stepPin d), oe_level = IoLow\<rparr>,
         \<lparr>oe_time = evt_time evt + 8, oe_pinId = pin_id (stepPin d), oe_level = IoHigh\<rparr>]) \<and>
   (evt_direction evt = StepBackward \<longrightarrow>
      getEventOutputSequence d evt =
        [\<lparr>oe_time = evt_time evt, oe_pinId = pin_id (dirPin d), oe_level = IoLow\<rparr>,
         \<lparr>oe_time = evt_time evt, oe_pinId = pin_id (stepPin d), oe_level = IoLow\<rparr>,
         \<lparr>oe_time = evt_time evt + 8, oe_pinId = pin_id (stepPin d), oe_level = IoHigh\<rparr>])"
  by (simp add: getEventOutputSequence_def mkOutputEvent_def microseconds_def)

text \<open>The contract at time 1000, once forward and once backward.\<close>

theorem getEventOutputSequence_contract_witness:
  "getEventOutputSequence example_driver
     \<lparr>evt_time = 1000, evt_stepperId = 0, evt_direction = StepForward\<rparr> =
     [\<lparr>oe_time = 1000, oe_pinId = 3, oe_level = IoHigh\<rparr>,
      \<lparr>oe_time = 1000, oe_pinId = 2, oe_level = IoLow\<rparr>,
      \<lparr>oe_time = 1008, oe_pinId = 2, oe_level = IoHigh\<rparr>] \<and>
   getEventOutputSequence example_driver
     \<lparr>evt_time = 1000, evt_stepperId = 0, evt_direction = StepBackward\<rparr> =
     [\<lparr>oe_time = 1000, oe_pinId = 3, oe_level = IoLow\<rparr>,
      \<lparr>oe_time = 1000, oe_pinId = 2, oe_level = IoLow\<rparr>,
      \<lparr>oe_time = 1008, oe_pinId = 2, oe_level = IoHigh\<rparr>]"
  using getEventOutputSequence_contract
      [of example_driver "\<lparr>evt_time = 1000, evt_stepperId = 0, evt_direction = StepForward\<rparr>"]
    getEventOutputSequence_contract
      [of example_driver "\<lparr>evt_time = 1000, evt_stepperId = 0, evt_direction = StepBackward\<rparr>"]
  by (simp add: example_driver_def A4988_ctor_def makeDigitalOutput_def example_pin_def)

text \<open>
  C10. lockAxis writes High and unlockAxis writes Low to the enable pin, each as one
  immediate write: the enable pin's log grows by exactly that one digitalWrite. Neither
  changes the step pin or the direction pin. Both return nothing (their model returns the
  driver only), so neither produces an OutputEvent; the sequence the driver gives for an event
  is the same before and after.
\<close>

theorem lock_unlock_frame:
  "enablePin (lockAxis d) = digitalWrite IoHigh (enablePin d) \<and>
   pin_log (enablePin (lockAxis d)) = pin_log (enablePin d) @ [OpDigitalWrite IoHigh] \<and>
   pin_level (enablePin (lockAxis d)) = IoHigh \<and>
   stepPin (lockAxis d) = stepPin d \<and> dirPin (lockAxis d) = dirPin d \<and>
   enablePin (unlockAxis d) = digitalWrite IoLow (enablePin d) \<and>
   pin_log (enablePin (unlockAxis d)) = pin_log (enablePin d) @ [OpDigitalWrite IoLow] \<and>
   pin_level (enablePin (unlockAxis d)) = IoLow \<and>
   stepPin (unlockAxis d) = stepPin d \<and> dirPin (unlockAxis d) = dirPin d \<and>
   getEventOutputSequence (lockAxis d) evt = getEventOutputSequence d evt \<and>
   getEventOutputSequence (unlockAxis d) evt = getEventOutputSequence d evt"
  by (simp add: lockAxis_def unlockAxis_def digitalWrite_def getEventOutputSequence_def)

section \<open>The RC thermistor: properties of the read cycle\<close>

text \<open>
  C3, as the code has it. Every call of isReady samples the pin once. When the sample is
  High it returns false and changes nothing else. When the sample is Low it returns true,
  records endTime and makes the pin an output driving High. The object keeps no record of a
  completed read: what a call returns depends on that call's sample alone.
\<close>

theorem isReady_every_call:
  "(wire = IoHigh \<longrightarrow>
      isReady now wire th = (False, th\<lparr>pin := snd (digitalRead wire (pin th))\<rparr>) \<and>
      pin_log (pin (snd (isReady now wire th))) = pin_log (pin th) @ [OpDigitalRead] \<and>
      endReadTime (snd (isReady now wire th)) = endReadTime th) \<and>
   (wire = IoLow \<longrightarrow>
      fst (isReady now wire th) = True \<and>
      endReadTime (snd (isReady now wire th)) = now \<and>
      startReadTime (snd (isReady now wire th)) = startReadTime th \<and>
      pin_mode (pin (snd (isReady now wire th))) = PinOutput \<and>
      pin_level (pin (snd (isReady now wire th))) = IoHigh \<and>
      pin_log (pin (snd (isReady now wire th))) =
        pin_log (pin th) @ [OpDigitalRead, OpMakeDigitalOutput IoHigh])"
  by (cases wire) (simp_all add: isReady_def digitalRead_def makeDigitalOutput_def)

text \<open>A read started at time 10, polled at 20 (High) and at 30 (Low).\<close>

theorem isReady_every_call_witness:
  "fst (isReady 20 IoHigh (startRead 10 example_thermistor)) = False \<and>
   pin_log (pin (snd (isReady 20 IoHigh (startRead 10 example_thermistor)))) =
     [OpMakeDigitalInput, OpDigitalRead] \<and>
   fst (isReady 30 IoLow (startRead 10 example_thermistor)) = True \<and>
   endReadTime (snd (isReady 30 IoLow (startRead 10 example_thermistor))) = 30 \<and>
   pin_level (pin (snd (isReady 30 IoLow (startRead 10 example_thermistor)))) = IoHigh \<and>
   pin_log (pin (snd (isReady 30 IoLow (startRead 10 example_thermistor)))) =
     [OpMakeDigitalInput, OpDigitalRead, OpMakeDigitalOutput IoHigh]"
  using isReady_every_call [of IoHigh 20 "startRead 10 example_thermistor"]
    isReady_every_call [of IoLow 30 "startRead 10 example_thermistor"]
  by (simp add: digitalRead_def startRead_def makeDigitalInput_def example_thermistor_def
      example_pin_def)

text \<open>
  C3 as stated fails in its last part. After the call that completed the read (sample Low
  at time 30), the next call samples the pin again, and with a High sample (the pin now
  drives High) it returns false.
\<close>

theorem isReady_after_completion_counterexample:
  "fst (isReady 30 IoLow (startRead 10 example_thermistor)) = True \<and>
   fst (isReady 40 IoHigh (snd (isReady 30 IoLow (startRead 10 example_thermistor)))) = False \<and>
   pin_log (pin (snd (isReady 40 IoHigh (snd (isReady 30 IoLow (startRead 10 example_thermistor)))))) =
     pin_log (pin (snd (isReady 30 IoLow (startRead 10 example_thermistor)))) @ [OpDigitalRead]"
  by (simp add: isReady_def digitalRead_def makeDigitalOutput_def startRead_def
      makeDigitalInput_def example_thermistor_def example_pin_def)

section \<open>The RC thermistor: properties of the resistance search\<close>

text \<open>
  The midpoint of a bracket wider than 2 lies strictly inside it and halves it. Then the
  three ways one evaluation of the loop condition goes on: the loop stops, raises the lower
  end or drops the upper end.
\<close>

lemma bracket_mid:
  fixes upper lower :: real
  assumes "2 < upper - lower"
  shows "lower < 0.5 * (upper + lower)" and "0.5 * (upper + lower) < upper"
    and "lower \<le> 0.5 * (upper + lower)" and "0.5 * (upper + lower) \<le> upper"
    and "upper - 0.5 * (upper + lower) = (upper - lower) / 2"
    and "0.5 * (upper + lower) - lower = (upper - lower) / 2"
  using assms by (simp_all add: field_simps)

lemma guessR_brackets_stop:
  "\<not> upper - lower > 2 \<Longrightarrow> guessR_brackets cfg time lower upper = [(lower, upper)]"
  by (subst guessR_brackets.simps) simp

lemma guessR_brackets_raise:
  "upper - lower > 2 \<Longrightarrow> calcT cfg (0.5 * (upper + lower)) < time \<Longrightarrow>
   guessR_brackets cfg time lower upper =
     (lower, upper) # guessR_brackets cfg time (0.5 * (upper + lower)) upper"
  by (subst guessR_brackets.simps) simp

lemma guessR_brackets_drop:
  "upper - lower > 2 \<Longrightarrow> \<not> calcT cfg (0.5 * (upper + lower)) < time \<Longrightarrow>
   guessR_brackets cfg time lower upper =
     (lower, upper) # guessR_brackets cfg time lower (0.5 * (upper + lower))"
  by (subst guessR_brackets.simps) simp

lemma guessR_loop_stop:
  "\<not> upper - lower > 2 \<Longrightarrow> guessR_loop cfg time lower upper = 0.5 * (lower + upper)"
  by (subst guessR_loop.simps) simp

lemma guessR_loop_raise:
  "upper - lower > 2 \<Longrightarrow> calcT cfg (0.5 * (upper + lower)) < time \<Longrightarrow>
   guessR_loop cfg time lower upper = guessR_loop cfg time (0.5 * (upper + lower)) upper"
  by (subst guessR_loop.simps) simp

lemma guessR_loop_drop:
  "upper - lower > 2 \<Longrightarrow> \<not> calcT cfg (0.5 * (upper + lower)) < time \<Longrightarrow>
   guessR_loop cfg time lower upper = guessR_loop cfg time lower (0.5 * (upper + lower))"
  by (subst guessR_loop.simps) simp

lemma guessR_brackets_nonempty: "guessR_brackets cfg time lower upper \<noteq> []"
  by (subst guessR_brackets.simps) simp

lemma guessR_loop_last_bracket:
  "guessR_loop cfg time lower upper = midpoint_of (last (guessR_brackets cfg time lower upper))"
proof (induction cfg time lower upper rule: guessR_brackets.induct)
  case (1 cfg time lower upper)
  let ?mid = "0.5 * (upper + lower)"
  show ?case
  proof (cases "upper - lower > 2")
    case False
    show ?thesis
      unfolding guessR_loop_stop [OF False] guessR_brackets_stop [OF False]
      by (simp add: midpoint_of_def)
  next
    case wide: True
    show ?thesis
    proof (cases "calcT cfg ?mid < time")
      case True
      show ?thesis
        unfolding guessR_loop_raise [OF wide True] guessR_brackets_raise [OF wide True]
        using "1.IH"(1) [OF wide True] guessR_brackets_nonempty [of cfg time ?mid upper]
        by (simp only: last.simps if_False)
    next
      case False
      show ?thesis
        unfolding guessR_loop_drop [OF wide False] guessR_brackets_drop [OF wide False]
        using "1.IH"(2) [OF wide False] guessR_brackets_nonempty [of cfg time lower ?mid]
        by (simp only: last.simps if_False)
    qed
  qed
qed

lemma guessR_brackets_last_width:
  "width (last (guessR_brackets cfg time lower upper)) \<le> 2"
proof (induction cfg time lower upper rule: guessR_brackets.induct)
  case (1 cfg time lower upper)
  let ?mid = "0.5 * (upper + lower)"
  show ?case
  proof (cases "upper - lower > 2")
    case False
    then show ?thesis
      unfolding guessR_brackets_stop [OF False] by (simp add: width_def)
  next
    case wide: True
    show ?thesis
    proof (cases "calcT cfg ?mid < time")
      case True
      show ?thesis
        unfolding guessR_brackets_raise [OF wide True]
        using "1.IH"(1) [OF wide True] guessR_brackets_nonempty [of cfg time ?mid upper]
        by (simp only: last.simps if_False)
    next
      case False
      show ?thesis
        unfolding guessR_brackets_drop [OF wide False]
        using "1.IH"(2) [OF wide False] guessR_brackets_nonempty [of cfg time lower ?mid]
        by (simp only: last.simps if_False)
    qed
  qed
qed


lemma guessR_brackets_raise_mem:
  assumes wide: "2 < upper - lower" and cmp: "calcT cfg (0.5 * (upper + lower)) < time"
    and b: "b \<in> set (guessR_brackets cfg time lower upper)"
  shows "b = (lower, upper) \<or> b \<in> set (guessR_brackets cfg time (0.5 * (upper + lower)) upper)"
proof -
  from b have "b \<in> set ((lower, upper) # guessR_brackets cfg time (0.5 * (upper + lower)) upper)"
    by (simp only: guessR_brackets_raise [OF wide cmp])
  then show ?thesis by (simp only: set_simps insert_iff)
qed

lemma guessR_brackets_drop_mem:
  assumes wide: "2 < upper - lower" and cmp: "\<not> calcT cfg (0.5 * (upper + lower)) < time"
    and b: "b \<in> set (guessR_brackets cfg time lower upper)"
  shows "b = (lower, upper) \<or> b \<in> set (guessR_brackets cfg time lower (0.5 * (upper + lower)))"
proof -
  from b have "b \<in> set ((lower, upper) # guessR_brackets cfg time lower (0.5 * (upper + lower)))"
    by (simp only: guessR_brackets_drop [OF wide cmp])
  then show ?thesis by (simp only: set_simps insert_iff)
qed




lemma guessR_brackets_contain:
  assumes "\<And>m. lower < m \<Longrightarrow> m < upper \<Longrightarrow> (calcT cfg m < time) = (m < Rt)"
    and "lower \<le> Rt" and "Rt \<le> upper"
    and "b \<in> set (guessR_brackets cfg time lower upper)"
  shows "fst b \<le> Rt \<and> Rt \<le> snd b"
  using assms
proof (induction cfg time lower upper rule: guessR_brackets.induct)
  case (1 cfg time lower upper)
  let ?mid = "0.5 * (upper + lower)"
  from "1.prems"(2,3) have first: "fst (lower, upper) \<le> Rt \<and> Rt \<le> snd (lower, upper)"
    by simp
  show ?case
  proof (cases "upper - lower > 2")
    case False
    from "1.prems"(4) have "b = (lower, upper)"
      by (simp only: guessR_brackets_stop [OF False] list.set insert_iff empty_iff simp_thms)
    with first show ?thesis by (simp only:)
  next
    case wide: True
    note mid = bracket_mid [OF wide]
    show ?thesis
    proof (cases "calcT cfg ?mid < time")
      case True
      with "1.prems"(1) [OF mid(1,2)] have "?mid < Rt" by blast
      then have midRt: "?mid \<le> Rt" by (rule less_imp_le)
      from guessR_brackets_raise_mem [OF wide True "1.prems"(4)] show ?thesis
      proof
        assume "b = (lower, upper)"
        with first show ?thesis by (simp only:)
      next
        assume b: "b \<in> set (guessR_brackets cfg time ?mid upper)"
        have "(calcT cfg m < time) = (m < Rt)" if "?mid < m" "m < upper" for m
        proof (rule "1.prems"(1))
          from mid(1) that(1) show "lower < m" by (rule less_trans)
          from that(2) show "m < upper" .
        qed
        from "1.IH"(1) [OF wide True this midRt "1.prems"(3) b] show ?thesis .
      qed
    next
      case False
      with "1.prems"(1) [OF mid(1,2)] have "\<not> ?mid < Rt" by blast
      then have midRt: "Rt \<le> ?mid" by (simp only: not_less)
      from guessR_brackets_drop_mem [OF wide False "1.prems"(4)] show ?thesis
      proof
        assume "b = (lower, upper)"
        with first show ?thesis by (simp only:)
      next
        assume b: "b \<in> set (guessR_brackets cfg time lower ?mid)"
        have "(calcT cfg m < time) = (m < Rt)" if "lower < m" "m < ?mid" for m
        proof (rule "1.prems"(1))
          from that(1) show "lower < m" .
          from that(2) mid(2) show "m < upper" by (rule less_trans)
        qed
        from "1.IH"(2) [OF wide False this "1.prems"(2) midRt b] show ?thesis .
      qed
    qed
  qed
qed

text \<open>
  Comparing the computed times of two resistances. Where the logarithm is not negative at
  R, a candidate m > 0 has a smaller computed time exactly when it is smaller than R.
\<close>

lemma rc_time_less_iff:
  fixes c vcc va ra m R :: real
  assumes c: "0 < c" and vcc: "0 < vcc" and va: "0 < va" and ra: "0 < ra"
    and R: "0 < R" and m: "0 < m"
    and ge: "(ra + R) * va \<le> R * vcc"
  shows "(c * m * ln (m * vcc / ((ra + m) * va)) < c * R * ln (R * vcc / ((ra + R) * va)))
       = (m < R)"
proof -
  define a where "a x = x * vcc / ((ra + x) * va)" for x
  define g where "g x = x * ln (a x)" for x
  have den: "0 < (ra + x) * va" if "0 < x" for x
    using that ra va by simp
  have apos: "0 < a x" if "0 < x" for x
    unfolding a_def using that vcc den [OF that] by simp
  have amono: "a x < a y" if x: "0 < x" and xy: "x < y" for x y
  proof -
    from x xy have y: "0 < y" by linarith
    have "a y - a x = (y - x) * (ra * vcc * va) / ((ra + x) * va * ((ra + y) * va))"
      unfolding a_def using den [OF x] den [OF y] by (simp add: field_simps)
    moreover have "0 < (y - x) * (ra * vcc * va) / ((ra + x) * va * ((ra + y) * va))"
    proof (rule divide_pos_pos)
      from xy have "0 < y - x" by simp
      moreover from ra vcc va have "0 < ra * vcc * va" by simp
      ultimately show "0 < (y - x) * (ra * vcc * va)" by (rule mult_pos_pos)
      from den [OF x] den [OF y] show "0 < (ra + x) * va * ((ra + y) * va)"
        by (rule mult_pos_pos)
    qed
    ultimately show ?thesis by linarith
  qed
  have aR: "1 \<le> a R"
    unfolding a_def using ge den [OF R] by simp
  then have lnR: "0 \<le> ln (a R)" by simp
  have less: "g m < g R" if mR: "m < R"
  proof (cases "a m < 1")
    case True
    with apos [OF m] have "ln (a m) < 0" by simp
    with m have "g m < 0"
      unfolding g_def by (simp add: mult_pos_neg)
    moreover from R lnR have "0 \<le> g R"
      unfolding g_def by simp
    ultimately show ?thesis by linarith
  next
    case False
    then have "1 \<le> a m" by simp
    then have 0: "0 \<le> ln (a m)" by simp
    from amono [OF m mR] apos [OF m] have "ln (a m) < ln (a R)"
      by (rule ln_strict_mono)
    with mR m 0 show ?thesis
      unfolding g_def by (intro mult_strict_mono') simp_all
  qed
  have ge': "g R \<le> g m" if Rm: "R \<le> m"
  proof (cases "R = m")
    case True
    then show ?thesis by simp
  next
    case False
    with Rm have "R < m" by simp
    from amono [OF R this] apos [OF R] have "ln (a R) \<le> ln (a m)"
      by (intro ln_mono) simp_all
    with Rm R lnR show ?thesis
      unfolding g_def by (intro mult_mono) simp_all
  qed
  have "(g m < g R) = (m < R)"
  proof (cases "m < R")
    case True
    with less show ?thesis by simp
  next
    case False
    then have "R \<le> m" by simp
    from ge' [OF this] False show ?thesis by simp
  qed
  moreover have "c * m * ln (m * vcc / ((ra + m) * va)) = c * g m"
    and "c * R * ln (R * vcc / ((ra + R) * va)) = c * g R"
    unfolding g_def a_def by simp_all
  ultimately show ?thesis
    using c by simp
qed

lemma calcT_less_iff:
  assumes "0 < C_PICO cfg" and "0 < VCC_mV cfg" and "0 < V_TOGGLE_mV cfg" and "0 < R_OHMS cfg"
    and "0 < Rt" and "0 < m"
    and "(Ra cfg + Rt) * Va cfg \<le> Rt * Vcc cfg"
  shows "(calcT cfg m < calcT cfg Rt) = (m < Rt)"
proof -
  from assms(1-4) have "0 < Cap cfg" "0 < Vcc cfg" "0 < Va cfg" "0 < Ra cfg"
    by (simp_all add: Cap_def Vcc_def Va_def Ra_def)
  from rc_time_less_iff [OF this assms(5,6,7)] show ?thesis
    unfolding calcT_def .
qed

lemma guessR_loop_bounds:
  "lower \<le> upper \<Longrightarrow>
   lower \<le> guessR_loop cfg time lower upper \<and> guessR_loop cfg time lower upper \<le> upper"
proof (induction cfg time lower upper rule: guessR_loop.induct)
  case (1 cfg time lower upper)
  let ?mid = "0.5 * (upper + lower)"
  show ?case
  proof (cases "upper - lower > 2")
    case False
    from "1.prems" show ?thesis
      unfolding guessR_loop_stop [OF False] by simp
  next
    case wide: True
    note mid = bracket_mid [OF wide]
    show ?thesis
    proof (cases "calcT cfg ?mid < time")
      case True
      from "1.IH"(1) [OF wide True mid(4)] mid(3) show ?thesis
        unfolding guessR_loop_raise [OF wide True] by linarith
    next
      case False
      from "1.IH"(2) [OF wide False mid(3)] mid(4) show ?thesis
        unfolding guessR_loop_drop [OF wide False] by linarith
    qed
  qed
qed

text \<open>The constants of the two example circuits.\<close>

lemma example_cfg_consts:
  "Cap example_cfg = 1 / 10 ^ 7" "Vcc example_cfg = 33 / 10" "Va example_cfg = 33 / 20"
  "Ra example_cfg = 500" "real (MIN_R example_cfg) = 0" "real (MAX_R example_cfg) = 200000"
  by (simp_all add: example_cfg_def Cap_def Vcc_def Va_def Ra_def)








text \<open>
  C9, for the resistances whose computed time is not negative. With positive circuit
  constants, for every Rt in [MIN_R, MAX_R] with (Ra + Rt) * Va \<open>\<le>\<close> Rt * Vcc (the
  logarithm of the formula is not negative), guessRFromTime applied to the time computed
  from Rt returns a resistance within 2 ohms of Rt.
\<close>

theorem guessRFromTime_round_trip:
  assumes circuit: "0 < C_PICO cfg" "0 < VCC_mV cfg" "0 < V_TOGGLE_mV cfg" "0 < R_OHMS cfg"
    and lo: "real (MIN_R cfg) \<le> Rt" and hi: "Rt \<le> real (MAX_R cfg)"
    and nonneg: "(Ra cfg + Rt) * Va cfg \<le> Rt * Vcc cfg"
  shows "\<bar>guessRFromTime cfg (calcT cfg Rt) - Rt\<bar> \<le> 2"
proof -
  let ?lo = "real (MIN_R cfg)" and ?hi = "real (MAX_R cfg)"
  let ?bs = "guessR_brackets cfg (calcT cfg Rt) ?lo ?hi"
  from circuit have "0 < Ra cfg * Va cfg"
    by (simp add: Ra_def Va_def)
  with nonneg have "Rt \<noteq> 0" by auto
  moreover from lo have "0 \<le> Rt" by linarith
  ultimately have Rt: "0 < Rt" by simp
  have cmp: "(calcT cfg m < calcT cfg Rt) = (m < Rt)" if "?lo < m" "m < ?hi" for m
  proof -
    from that(1) have "0 < m" by linarith
    from calcT_less_iff [OF circuit Rt this nonneg] show ?thesis .
  qed
  have "last ?bs \<in> set ?bs"
    using guessR_brackets_nonempty by (rule last_in_set)
  with cmp lo hi have "fst (last ?bs) \<le> Rt \<and> Rt \<le> snd (last ?bs)"
    by (rule guessR_brackets_contain)
  moreover have "snd (last ?bs) - fst (last ?bs) \<le> 2"
    using guessR_brackets_last_width [of cfg "calcT cfg Rt" ?lo ?hi] by (simp add: width_def)
  moreover have "guessRFromTime cfg (calcT cfg Rt) = 0.5 * (fst (last ?bs) + snd (last ?bs))"
    unfolding guessRFromTime_def guessR_loop_last_bracket midpoint_of_def ..
  ultimately show ?thesis by (simp add: abs_le_iff)
qed

text \<open>The same circuit with the default MIN_R = 0, at Rt = 100000.\<close>

theorem guessRFromTime_round_trip_witness:
  "\<bar>guessRFromTime example_cfg (calcT example_cfg 100000) - 100000\<bar> \<le> 2"
proof -
  have c: "0 < C_PICO example_cfg" "0 < VCC_mV example_cfg"
    "0 < V_TOGGLE_mV example_cfg" "0 < R_OHMS example_cfg"
    by (simp_all add: example_cfg_def)
  have lo: "real (MIN_R example_cfg) \<le> 100000" and hi: "100000 \<le> real (MAX_R example_cfg)"
    and nonneg: "(Ra example_cfg + 100000) * Va example_cfg \<le> 100000 * Vcc example_cfg"
    by (simp_all add: example_cfg_consts)
  from guessRFromTime_round_trip [OF c lo hi nonneg] show ?thesis .
qed

text \<open>
  The search in the example circuit for the time computed from Rt = 1: that time is
  negative, and the computed time of every candidate from 500 ohms up is not.
\<close>

lemma example_calcT:
  "calcT example_cfg m = 1 / 10 ^ 7 * m * ln (m * (33 / 10) / ((500 + m) * (33 / 20)))"
  by (simp only: calcT_def example_cfg_consts)

lemma example_time_negative: "calcT example_cfg 1 < 0"
proof -
  have "ln (2 / 501 :: real) < 0" by simp
  then show ?thesis
    unfolding example_calcT by (simp add: field_simps)
qed

lemma example_calcT_nonneg:
  assumes "500 \<le> m"
  shows "0 \<le> calcT example_cfg m"
proof -
  from assms have "0 < (500 + m) * (33 / 20)" by simp
  with assms have "1 \<le> m * (33 / 10) / ((500 + m) * (33 / 20))"
    by (simp add: field_simps)
  then have "0 \<le> ln (m * (33 / 10) / ((500 + m) * (33 / 20)))"
    by (rule ln_ge_zero)
  with assms show ?thesis
    unfolding example_calcT by simp
qed

lemma example_drop_step:
  assumes "1000 \<le> upper"
  shows "guessR_loop example_cfg (calcT example_cfg 1) 0 upper
       = guessR_loop example_cfg (calcT example_cfg 1) 0 (upper / 2)"
proof -
  from assms have wide: "2 < upper - 0" by simp
  from assms have "500 \<le> 0.5 * (upper + 0)" by simp
  from example_calcT_nonneg [OF this] example_time_negative
  have "\<not> calcT example_cfg (0.5 * (upper + 0)) < calcT example_cfg 1" by linarith
  from guessR_loop_drop [OF wide this] show ?thesis by simp
qed

lemma example_descent:
  "guessR_loop example_cfg (calcT example_cfg 1) 0 200000
 = guessR_loop example_cfg (calcT example_cfg 1) 0 (3125 / 4)"
proof -
  have "guessR_loop example_cfg (calcT example_cfg 1) 0 200000
      = guessR_loop example_cfg (calcT example_cfg 1) 0 100000"
    using example_drop_step [of 200000] by simp
  also have "\<dots> = guessR_loop example_cfg (calcT example_cfg 1) 0 50000"
    using example_drop_step [of 100000] by simp
  also have "\<dots> = guessR_loop example_cfg (calcT example_cfg 1) 0 25000"
    using example_drop_step [of 50000] by simp
  also have "\<dots> = guessR_loop example_cfg (calcT example_cfg 1) 0 12500"
    using example_drop_step [of 25000] by simp
  also have "\<dots> = guessR_loop example_cfg (calcT example_cfg 1) 0 6250"
    using example_drop_step [of 12500] by simp
  also have "\<dots> = guessR_loop example_cfg (calcT example_cfg 1) 0 3125"
    using example_drop_step [of 6250] by simp
  also have "\<dots> = guessR_loop example_cfg (calcT example_cfg 1) 0 (3125 / 2)"
    using example_drop_step [of 3125] by simp
  also have "\<dots> = guessR_loop example_cfg (calcT example_cfg 1) 0 (3125 / 4)"
    using example_drop_step [of "3125 / 2"] by simp
  finally show ?thesis .
qed

lemma example_turn: "calcT example_cfg (3125 / 8) < calcT example_cfg 1"
proof -
  have "ln (50 / 57 :: real) \<le> 50 / 57 - 1"
    by (rule ln_le_minus_one) simp
  then have "3125 / 8 * ln (50 / 57 :: real) \<le> 3125 / 8 * (50 / 57 - 1)"
    by (rule mult_left_mono) simp
  then have left: "3125 / 8 * ln (50 / 57 :: real) < - 8" by simp
  have "ln (2 :: real) < 1" by (rule ln_2_less_1)
  then have "- 8 < - (8 * ln (2 :: real))" by simp
  also have "- (8 * ln (2 :: real)) = ln (1 / 256)"
  proof -
    have "ln (256 :: real) = ln (2 ^ 8)" by simp
    also have "\<dots> = real 8 * ln 2" by (rule ln_realpow)
    finally have "ln (256 :: real) = 8 * ln 2" by simp
    moreover have "ln (1 / 256 :: real) = ln 1 - ln 256"
      by (rule ln_divide_pos) simp_all
    ultimately show ?thesis by simp
  qed
  also have "\<dots> < ln (2 / 501)"
    by (rule ln_strict_mono) simp_all
  finally have right: "- 8 < ln (2 / 501 :: real)" .
  have "calcT example_cfg (3125 / 8) = 1 / 10 ^ 7 * (3125 / 8 * ln (50 / 57))"
    unfolding example_calcT by simp
  moreover have "calcT example_cfg 1 = 1 / 10 ^ 7 * ln (2 / 501)"
    unfolding example_calcT by simp
  moreover from left right have "3125 / 8 * ln (50 / 57 :: real) < ln (2 / 501)"
    by linarith
  ultimately show ?thesis by simp
qed

text \<open>
  C9 as stated fails for a resistance whose computed time is negative. In the example
  circuit (MIN_R = 0, MAX_R = 200000) the time computed from Rt = 1 is negative; the loop
  lowers the upper end to 781.25, then raises the lower end to 390.625, and so returns at
  least 390.625.
\<close>

theorem guessRFromTime_round_trip_counterexample:
  "real (MIN_R example_cfg) \<le> 1 \<and> 1 \<le> real (MAX_R example_cfg) \<and>
   \<not> \<bar>guessRFromTime example_cfg (calcT example_cfg 1) - 1\<bar> \<le> 2"
proof -
  have wide: "2 < 3125 / 4 - (0 :: real)" by simp
  have "calcT example_cfg (0.5 * (3125 / 4 + 0)) < calcT example_cfg 1"
    using example_turn by simp
  from guessR_loop_raise [OF wide this]
  have "guessR_loop example_cfg (calcT example_cfg 1) 0 (3125 / 4)
      = guessR_loop example_cfg (calcT example_cfg 1) (3125 / 8) (3125 / 4)"
    by simp
  moreover have "3125 / 8 \<le> guessR_loop example_cfg (calcT example_cfg 1) (3125 / 8) (3125 / 4)"
    using guessR_loop_bounds [of "3125 / 8" "3125 / 4" example_cfg "calcT example_cfg 1"]
    by simp
  ultimately have "3125 / 8 \<le> guessRFromTime example_cfg (calcT example_cfg 1)"
    unfolding guessRFromTime_def example_cfg_consts example_descent by simp
  then show ?thesis
    by (simp add: example_cfg_consts)
qed

section \<open>The linear delta coordinate map: bound\<close>

lemma sqrt_16: "sqrt 16 = 4"
proof -
  have "sqrt (4\<^sup>2) = 4" by simp
  then show ?thesis by simp
qed


text \<open>
  What the code does guarantee for z: it is never below \<open>MIN_Z\<close>, and it is at most the
  limit of the source, which is h + sqrt (L * L - r * r) multiplied by the steps per mm.
\<close>

lemma bound_z_range:
  "MIN_Z \<le> fst (snd (snd (bound cm (x, y, z, e)))) \<and>
   (MIN_Z \<le> (m_h cm + sqrt (m_L cm * m_L cm - m_r cm * m_r cm)) * m_STEPS_MM cm \<longrightarrow>
      fst (snd (snd (bound cm (x, y, z, e))))
        \<le> (m_h cm + sqrt (m_L cm * m_L cm - m_r cm * m_r cm)) * m_STEPS_MM cm)"
  by (simp add: bound_def Let_def)

text \<open>
  C2. The claim puts the z of bound's result between MIN_Z and h + sqrt (L * L - r * r), the upper
  limit in millimetres. The source multiplies the upper limit by STEPS_MM, so the limit it
  compares the millimetre value z with is in steps. With r = 3, L = 5, h = 10 and 100 steps
  per mm the limit of the claim is 14 mm, and bound leaves z = 1000 mm as it is.
\<close>

theorem bound_z_above_limit:
  "bound example_geometry (0, 0, 1000, 0) = (0, 0, 1000, 0) \<and>
   m_h example_geometry
     + sqrt (m_L example_geometry * m_L example_geometry
             - m_r example_geometry * m_r example_geometry) = 14"
  by (simp add: bound_def example_geometry_def LinearDeltaCoordMap_ctor_def MIN_Z_def sqrt_16)

lemma scale_onto_circle:
  fixes x y R2 :: real
  assumes out: "R2 < x * x + y * y" and R2: "0 \<le> R2"
  shows "x * sqrt (R2 / (x * x + y * y)) * (x * sqrt (R2 / (x * x + y * y)))
       + y * sqrt (R2 / (x * x + y * y)) * (y * sqrt (R2 / (x * x + y * y))) = R2"
proof -
  define d where "d = x * x + y * y"
  define s where "s = sqrt (R2 / d)"
  from out R2 have pos: "0 < d"
    unfolding d_def by linarith
  with R2 have "0 \<le> R2 / d" by simp
  then have "\<bar>R2 / d\<bar> = R2 / d"
    by (rule abs_of_nonneg)
  then have ss: "s * s = R2 / d"
    unfolding s_def by (simp only: real_sqrt_mult_self)
  have "x * s * (x * s) + y * s * (y * s) = d * (s * s)"
    unfolding d_def by (simp add: algebra_simps)
  also have "\<dots> = R2"
    unfolding ss using pos by simp
  finally show ?thesis unfolding s_def d_def .
qed



lemma clamp_idem:
  fixes m u z :: real
  shows "max m (min u (max m (min u z))) = max m (min u z)"
  by (simp add: max_def min_def)

text \<open>
  With exact arithmetic a second application of bound changes nothing: the z of the result is
  already clamped, and the x and y of the result lie exactly on the circle of radius
  buildrad. The float code rounds, and the statements after this one are about that.
\<close>

lemma bound_exact_arithmetic_idempotent: "bound cm (bound cm p) = bound cm p"
proof -
  obtain x y z e where p: "p = (x, y, z, e)"
    by (cases p) auto
  show ?thesis
  proof (cases "x * x + y * y > m_buildrad cm * m_buildrad cm")
    case True
    have "0 \<le> m_buildrad cm * m_buildrad cm" by simp
    from scale_onto_circle [OF True this] True show ?thesis
      unfolding p by (simp add: bound_def Let_def clamp_idem)
  next
    case False
    then show ?thesis
      unfolding p by (simp add: bound_def Let_def clamp_idem)
  qed
qed

section \<open>The linear delta coordinate map: bound in float arithmetic, properties\<close>

text \<open>
  Evaluating a rounding: the significand m and the exponent - n of the result are given,
  and checked by comparing exact numbers.
\<close>

lemma round_half_even_near:
  assumes "real_of_int m - 1 / 2 < y" and "y < real_of_int m + 1 / 2"
  shows "round_half_even y = m"
proof -
  have "\<lfloor>y\<rfloor> = m \<or> \<lfloor>y\<rfloor> = m - 1"
    using assms by linarith
  then show ?thesis
  proof
    assume f: "\<lfloor>y\<rfloor> = m"
    with assms show ?thesis
      by (simp add: round_half_even_def Let_def)
  next
    assume f: "\<lfloor>y\<rfloor> = m - 1"
    with assms show ?thesis
      by (simp add: round_half_even_def Let_def)
  qed
qed

lemma pow2_powr:
  assumes "0 < p"
  shows "2 powr (real_of_int (int p - 1 - int n)) = 2 ^ (p - 1) / 2 ^ n"
proof -
  from assms have "real_of_int (int p - 1 - int n) = real (p - 1) + - real n"
    by simp
  then have "2 powr (real_of_int (int p - 1 - int n)) = 2 powr real (p - 1) * 2 powr (- real n)"
    by (simp only: powr_add)
  also have "2 powr real (p - 1) = (2 :: real) ^ (p - 1)"
    by (rule powr_realpow) simp
  also have "2 powr (- real n) = 1 / (2 :: real) ^ n"
    by (simp only: powr_minus_divide powr_realpow [of 2 n, simplified])
  finally show ?thesis by simp
qed

lemma round_to_eval:
  fixes x :: real and m :: int and n p :: nat
  assumes p: "0 < p"
    and lo: "2 ^ (p - 1) \<le> x * 2 ^ n" and hi: "x * 2 ^ n < 2 ^ p"
    and m1: "real_of_int m - 1 / 2 < x * 2 ^ n" and m2: "x * 2 ^ n < real_of_int m + 1 / 2"
  shows "round_to p x = real_of_int m / 2 ^ n"
proof -
  define e where "e = int p - 1 - int n"
  have "(0 :: real) < 2 ^ (p - 1)" by simp
  with lo have "0 < x * 2 ^ n" by linarith
  then have xpos: "0 < x"
    by (simp add: zero_less_mult_iff)
  have lo': "2 powr real_of_int e \<le> x"
    unfolding e_def pow2_powr [OF p] using lo by (simp add: field_simps)
  have "2 powr (real_of_int e + 1) = 2 * 2 powr real_of_int e"
    by (simp add: powr_add)
  also have "\<dots> = 2 * (2 ^ (p - 1) / 2 ^ n)"
    unfolding e_def pow2_powr [OF p] ..
  also from p have "\<dots> = 2 ^ p / 2 ^ n"
    by (cases p) simp_all
  finally have e2: "2 powr (real_of_int e + 1) = 2 ^ p / 2 ^ n" .
  have hi': "x < 2 powr (real_of_int e + 1)"
    unfolding e2 using hi by (simp add: field_simps)
  have "real_of_int e \<le> log 2 x"
    using lo' xpos by (simp add: le_log_iff)
  moreover have "log 2 x < real_of_int e + 1"
    using hi' xpos by (simp add: log_less_iff)
  ultimately have "\<lfloor>log 2 x\<rfloor> = e"
    by (rule floor_unique)
  with xpos have fl: "\<lfloor>log 2 \<bar>x\<bar>\<rfloor> = e" by simp
  have ex: "e - (int p - 1) = - int n"
    unfolding e_def by simp
  have u: "2 powr real_of_int (- int n) = 1 / 2 ^ n"
    by (simp add: powr_minus_divide powr_realpow)
  have "x / (1 / 2 ^ n) = x * 2 ^ n" by simp
  with m1 m2 have "round_half_even (x / (1 / 2 ^ n)) = m"
    by (simp only: round_half_even_near)
  with xpos show ?thesis
    unfolding round_to_def fl ex u Let_def by simp
qed
















lemma twice_y: "f32_mul (11138109 / 131072) (16777215 / 16777216) = 2784527 / 32768"
  using round_to_eval [where p = 24 and n = 17 and m = 11138108 and x = "(11138109 / 131072) * (16777215 / 16777216)"]
  by (simp add: f32_mul_def)

















section \<open>The linear delta coordinate map: xyzeFromMechanical\<close>

text \<open>
  C4. When the three tower positions, in millimetres, are equal, xyzeFromMechanical returns
  x = 0, y = 0 and z = A - sqrt (L * L - r * r) (and e, the extruder position in millimetres).
\<close>

theorem xyzeFromMechanical_equal_heights:
  assumes "mechA cm mech = mechB cm mech" and "mechB cm mech = mechC cm mech"
  shows "xyzeFromMechanical cm mech =
           Some (0, 0, mechA cm mech - sqrt (m_L cm * m_L cm - m_r cm * m_r cm), mechE cm mech)"
  using assms by (simp add: xyzeFromMechanical_def Let_def)

text \<open>All towers at 5000 steps, that is A = B = C = 50 mm, with L = 5 and r = 3.\<close>

theorem xyzeFromMechanical_equal_heights_witness:
  "mechA example_geometry (5000, 5000, 5000, 100) = 50 \<and>
   mechB example_geometry (5000, 5000, 5000, 100) = 50 \<and>
   mechC example_geometry (5000, 5000, 5000, 100) = 50 \<and>
   xyzeFromMechanical example_geometry (5000, 5000, 5000, 100) = Some (0, 0, 46, 2)"
proof -
  have A: "mechA example_geometry (5000, 5000, 5000, 100) = 50"
    and B: "mechB example_geometry (5000, 5000, 5000, 100) = 50"
    and C: "mechC example_geometry (5000, 5000, 5000, 100) = 50"
    and E: "mechE example_geometry (5000, 5000, 5000, 100) = 2"
    by (simp_all add: mechA_def mechB_def mechC_def mechE_def example_geometry_def
        LinearDeltaCoordMap_ctor_def)
  have "mechA example_geometry (5000, 5000, 5000, 100)
      = mechB example_geometry (5000, 5000, 5000, 100)"
    and "mechB example_geometry (5000, 5000, 5000, 100)
      = mechC example_geometry (5000, 5000, 5000, 100)"
    by (simp_all only: A B C)
  from xyzeFromMechanical_equal_heights [OF this] A B C E show ?thesis
    by (simp add: example_geometry_def LinearDeltaCoordMap_ctor_def sqrt_16)
qed

lemma ydiv_pos:
  fixes A B r :: real
  assumes "A \<noteq> B"
  shows "0 < ydiv A B r"
proof -
  have "ydiv A B r = 8 * ((A - B) * (A - B)) + 18 * (r * r)"
    by (simp add: ydiv_def algebra_simps)
  moreover from assms have "0 < (A - B) * (A - B)"
    by (auto simp: zero_less_mult_iff)
  moreover have "0 \<le> r * r" by simp
  ultimately show ?thesis by linarith
qed

lemma zdiv_nonzero:
  fixes A B C r :: real
  assumes "B \<noteq> C" and "r \<noteq> 0"
  shows "zdiv A B C r \<noteq> 0"
proof -
  have "4 * (A * A + B * B - B * C + C * C - A * (B + C)) + 9 * (r * r)
      = 2 * ((A - B) * (A - B)) + 2 * ((B - C) * (B - C)) + 2 * ((A - C) * (A - C)) + 9 * (r * r)"
    by (simp add: algebra_simps)
  moreover have "0 \<le> (A - B) * (A - B)" and "0 \<le> (A - C) * (A - C)" and "0 \<le> (B - C) * (B - C)"
    by simp_all
  moreover from assms have "0 < r * r"
    by (auto simp: zero_less_mult_iff)
  ultimately have "0 < 4 * (A * A + B * B - B * C + C * C - A * (B + C)) + 9 * (r * r)"
    by linarith
  then have "4 * (A * A + B * B - B * C + C * C - A * (B + C)) + 9 * r * r \<noteq> 0"
    by (simp add: mult.assoc)
  with assms show ?thesis
    by (simp add: zdiv_def)
qed

text \<open>
  C5, with r > 0 in place of r \<open>\<ge>\<close> 0. Under L > r > 0 and positive steps per mm, no division
  of xyzeFromMechanical has a zero divisor, so it returns a position for every mechanical
  state. In the branch B = C (with A different) ydiv and A - B are not zero; in the last
  branch zdiv and r are not zero.
\<close>

theorem xyzeFromMechanical_no_zero_divisor:
  assumes "0 < m_r cm" and "m_r cm < m_L cm"
    and "0 < m_STEPS_MM cm" and "0 < m_STEPS_MM_EXT cm"
  shows "xyzeFromMechanical cm mech \<noteq> None \<and>
    (mechA cm mech \<noteq> mechB cm mech \<and> mechB cm mech = mechC cm mech \<longrightarrow>
       ydiv (mechA cm mech) (mechB cm mech) (m_r cm) \<noteq> 0 \<and>
       mechA cm mech - mechB cm mech \<noteq> 0) \<and>
    (mechB cm mech \<noteq> mechC cm mech \<longrightarrow>
       zdiv (mechA cm mech) (mechB cm mech) (mechC cm mech) (m_r cm) \<noteq> 0 \<and> m_r cm \<noteq> 0)"
proof -
  let ?A = "mechA cm mech" and ?B = "mechB cm mech" and ?C = "mechC cm mech"
  from assms have r: "m_r cm \<noteq> 0" by simp
  have y: "ydiv ?A ?B (m_r cm) \<noteq> 0" if "?A \<noteq> ?B"
    using ydiv_pos [OF that, of "m_r cm"] by simp
  have z: "zdiv ?A ?B ?C (m_r cm) \<noteq> 0" if "?B \<noteq> ?C"
    using zdiv_nonzero [OF that r] .
  have "xyzeFromMechanical cm mech \<noteq> None"
  proof (cases "?B = ?C")
    case True
    show ?thesis
    proof (cases "?A = ?B")
      case True
      with \<open>?B = ?C\<close> show ?thesis
        by (simp add: xyzeFromMechanical_def Let_def)
    next
      case False
      with \<open>?B = ?C\<close> y [OF False] show ?thesis
        by (simp add: xyzeFromMechanical_def Let_def fdiv_def)
    qed
  next
    case False
    with z [OF False] r show ?thesis
      by (simp add: xyzeFromMechanical_def Let_def fdiv_def)
  qed
  with y z r show ?thesis by auto
qed

text \<open>
  Two states of the example geometry: towers at 1, 0, 0 mm (the branch B = C) and at
  0, 1, 2 mm (the last branch).
\<close>

theorem xyzeFromMechanical_no_zero_divisor_witness:
  "0 < m_r example_geometry \<and> m_r example_geometry < m_L example_geometry \<and>
   0 < m_STEPS_MM example_geometry \<and> 0 < m_STEPS_MM_EXT example_geometry \<and>
   xyzeFromMechanical example_geometry (100, 0, 0, 0) \<noteq> None \<and>
   ydiv (mechA example_geometry (100, 0, 0, 0)) (mechB example_geometry (100, 0, 0, 0))
     (m_r example_geometry) \<noteq> 0 \<and>
   xyzeFromMechanical example_geometry (0, 100, 200, 0) \<noteq> None \<and>
   zdiv (mechA example_geometry (0, 100, 200, 0)) (mechB example_geometry (0, 100, 200, 0))
     (mechC example_geometry (0, 100, 200, 0)) (m_r example_geometry) \<noteq> 0"
proof -
  have g: "0 < m_r example_geometry" "m_r example_geometry < m_L example_geometry"
    "0 < m_STEPS_MM example_geometry" "0 < m_STEPS_MM_EXT example_geometry"
    by (simp_all add: example_geometry_def LinearDeltaCoordMap_ctor_def)
  have two: "mechA example_geometry (100, 0, 0, 0) \<noteq> mechB example_geometry (100, 0, 0, 0)"
    "mechB example_geometry (100, 0, 0, 0) = mechC example_geometry (100, 0, 0, 0)"
    and three: "mechB example_geometry (0, 100, 200, 0) \<noteq> mechC example_geometry (0, 100, 200, 0)"
    by (simp_all add: mechA_def mechB_def mechC_def example_geometry_def
        LinearDeltaCoordMap_ctor_def)
  from xyzeFromMechanical_no_zero_divisor [OF g, of "(100, 0, 0, 0)"]
    xyzeFromMechanical_no_zero_divisor [OF g, of "(0, 100, 200, 0)"] g two three
  show ?thesis by blast
qed

text \<open>
  C5 as stated, with r \<open>\<ge>\<close> 0, fails at r = 0 (L = 1, one step per mm): with the towers at
  0, 1 and 2 mm the last branch divides by zdiv = 0 (and by r = 0).
\<close>

theorem xyzeFromMechanical_zero_divisor_counterexample:
  "0 \<le> m_r flat_geometry \<and> m_r flat_geometry < m_L flat_geometry \<and>
   0 < m_STEPS_MM flat_geometry \<and> 0 < m_STEPS_MM_EXT flat_geometry \<and>
   mechB flat_geometry (0, 1, 2, 0) \<noteq> mechC flat_geometry (0, 1, 2, 0) \<and>
   zdiv (mechA flat_geometry (0, 1, 2, 0)) (mechB flat_geometry (0, 1, 2, 0))
     (mechC flat_geometry (0, 1, 2, 0)) (m_r flat_geometry) = 0 \<and>
   xyzeFromMechanical flat_geometry (0, 1, 2, 0) = None"
  by (simp add: flat_geometry_def LinearDeltaCoordMap_ctor_def xyzeFromMechanical_def
      mechA_def mechB_def mechC_def mechE_def zdiv_def fdiv_def Let_def)

end
